theory Spec2Isabelle
  imports Main
begin

section \<open>Python values of JSON shape\<close>

text \<open>
  \<^verbatim>\<open>json.loads\<close> yields \<^verbatim>\<open>None\<close>, \<^verbatim>\<open>bool\<close>, \<^verbatim>\<open>int\<close>, \<^verbatim>\<open>str\<close>, \<^verbatim>\<open>list\<close> and
  \<^verbatim>\<open>dict\<close> (with \<^verbatim>\<open>str\<close> keys). A dictionary is the list of its items in insertion
  order. Floating-point numbers are left out of the model: the judge never inspects a
  number, so a float behaves as an \<^verbatim>\<open>int\<close> does wherever this theory looks.
\<close>

datatype pyval =
    PNone
  | PBool bool
  | PInt int
  | PStr string
  | PList "pyval list"
  | PDict "(string \<times> pyval) list"

datatype exn =
    JSONDecodeError string
  | TypeError string
  | AttributeError string
  | NameError string
  | OtherException string

text \<open>\<^verbatim>\<open>str(e)\<close> of an exception is its message.\<close>

fun str_exn :: "exn \<Rightarrow> string" where
  "str_exn (JSONDecodeError m) = m"
| "str_exn (TypeError m) = m"
| "str_exn (AttributeError m) = m"
| "str_exn (NameError m) = m"
| "str_exn (OtherException m) = m"

fun type_name :: "pyval \<Rightarrow> string" where
  "type_name PNone = ''NoneType''"
| "type_name (PBool _) = ''bool''"
| "type_name (PInt _) = ''int''"
| "type_name (PStr _) = ''str''"
| "type_name (PList _) = ''list''"
| "type_name (PDict _) = ''dict''"

text \<open>
  \<^verbatim>\<open>x.get(key, default)\<close>: only a \<^verbatim>\<open>dict\<close> has the method; on any other value the
  attribute lookup raises \<^verbatim>\<open>AttributeError\<close>.
\<close>

fun py_get :: "pyval \<Rightarrow> string \<Rightarrow> pyval \<Rightarrow> exn + pyval" where
  "py_get (PDict kvs) key dflt =
     Inr (case map_of kvs key of Some v \<Rightarrow> v | None \<Rightarrow> dflt)"
| "py_get v key dflt =
     Inl (AttributeError ([CHR 0x27] @ type_name v @ [CHR 0x27] @
            '' object has no attribute '' @ [CHR 0x27] @ ''get'' @ [CHR 0x27]))"

text \<open>\<^verbatim>\<open>len(x)\<close>: defined on \<^verbatim>\<open>list\<close>, \<^verbatim>\<open>dict\<close> and \<^verbatim>\<open>str\<close>, a \<^verbatim>\<open>TypeError\<close> otherwise.\<close>

fun py_len :: "pyval \<Rightarrow> exn + nat" where
  "py_len (PList xs) = Inr (length xs)"
| "py_len (PDict kvs) = Inr (length kvs)"
| "py_len (PStr s) = Inr (length s)"
| "py_len v =
     Inl (TypeError (''object of type '' @ [CHR 0x27] @ type_name v @ [CHR 0x27] @
            '' has no len()''))"

text \<open>
  What \<^verbatim>\<open>for x in v\<close> visits: the elements of a list, the keys of a dictionary, the
  one-character strings of a string. (It is only reached after \<^verbatim>\<open>len\<close> succeeded.)
\<close>

fun py_iter :: "pyval \<Rightarrow> pyval list" where
  "py_iter (PList xs) = xs"
| "py_iter (PDict kvs) = map (\<lambda>kv. PStr (fst kv)) kvs"
| "py_iter (PStr s) = map (\<lambda>c. PStr [c]) s"
| "py_iter v = []"

subsection \<open>Text helpers\<close>

definition digit_char :: "nat \<Rightarrow> char" where
  "digit_char d = char_of (48 + d)"

function str_nat :: "nat \<Rightarrow> string" where
  "str_nat n = (if n < 10 then [digit_char n] else str_nat (n div 10) @ [digit_char (n mod 10)])"
  by pat_completeness auto
termination
  by (relation "measure id") auto

declare str_nat.simps [simp del]

text \<open>\<^verbatim>\<open>str(n)\<close> of a Python \<^verbatim>\<open>int\<close>, as an f-string renders it.\<close>

definition str_int :: "int \<Rightarrow> string" where
  "str_int i = (if i < 0 then CHR ''-'' # str_nat (nat (- i)) else str_nat (nat i))"

text \<open>The ASCII characters for which \<^verbatim>\<open>str.isspace\<close> holds.\<close>

definition is_space :: "char \<Rightarrow> bool" where
  "is_space c = ((of_char c :: nat) \<in> {9, 10, 11, 12, 13, 28, 29, 30, 31, 32})"

definition strip :: "string \<Rightarrow> string" where
  "strip s = rev (dropWhile is_space (rev (dropWhile is_space s)))"

section \<open>The sandbox as the judge sees it\<close>

text \<open>
  The harness text is an f-string over the submitted code, the JSON texts of the test
  input and of the expected output, and the index. The record keeps these ingredients
  (the text is a function of them); \<open>emits_output\<close> tells the two templates apart: the
  one of \<^verbatim>\<open>execute_code\<close> puts \<^verbatim>\<open>"output": result\<close> into the passed record.
\<close>

record test_script =
  code :: string
  test_input :: pyval
  expected_output :: pyval
  idx :: nat
  emits_output :: bool

text \<open>
  What \<^verbatim>\<open>subprocess.run(..., capture_output=True, text=True, timeout=t)\<close> does:
  it returns a completed process (return code, stdout, stderr), raises
  \<^verbatim>\<open>TimeoutExpired\<close> after killing the child, or raises something else (for instance
  \<^verbatim>\<open>FileNotFoundError\<close> when there is no \<^verbatim>\<open>docker\<close> executable), given by its message.
\<close>

datatype run_result =
    Completed int string string
  | TimeoutExpired
  | RunFailed string

text \<open>One call of \<^verbatim>\<open>subprocess.run\<close>: the command line before the script, the script, the timeout.\<close>

type_synonym docker_call = "string list \<times> test_script \<times> int"

type_synonym backend = "string list \<Rightarrow> test_script \<Rightarrow> int \<Rightarrow> run_result"

text \<open>\<^verbatim>\<open>json.loads\<close> on a text: the decoded value, or the message of the \<^verbatim>\<open>JSONDecodeError\<close>.\<close>

type_synonym decoder = "string \<Rightarrow> string + pyval"

section \<open>Verdicts\<close>

text \<open>
  The dictionary a judge function returns. The error verdict has no \<^verbatim>\<open>test_results\<close>
  key, the verdict of \<^verbatim>\<open>execute_code\<close> has no \<^verbatim>\<open>message\<close> key.
\<close>

record verdict =
  status :: string
  message :: "string option"
  passed :: nat
  total :: nat
  test_results :: "pyval list option"

datatype outcome = Returned verdict | Raised exn

definition error_entry :: "nat \<Rightarrow> string \<Rightarrow> pyval" where
  "error_entry i msg =
     PDict [(''status'', PStr ''error''), (''test_case'', PInt (int i)), (''error'', PStr msg)]"

definition warning_entry :: "nat \<Rightarrow> pyval" where
  "warning_entry i =
     PDict [(''status'', PStr ''warning''), (''test_case'', PInt (int i)),
            (''message'', PStr ''Docker not available, using local execution'')]"

definition invalid_suite :: verdict where
  "invalid_suite =
     \<lparr>status = ''error'', message = Some ''Invalid test cases JSON format'',
      passed = 0, total = 0, test_results = None\<rparr>"

section \<open>The judge\<close>

text \<open>
  Building the harness of one test case evaluates \<^verbatim>\<open>test_case.get('input', {})\<close> and
  \<^verbatim>\<open>test_case.get('output')\<close>; both raise when the element is not a dictionary.
\<close>

definition build_script :: "bool \<Rightarrow> string \<Rightarrow> nat \<Rightarrow> pyval \<Rightarrow> exn + test_script" where
  "build_script emits c i test_case =
     (case py_get test_case ''input'' (PDict []) of
        Inl e \<Rightarrow> Inl e
      | Inr inp \<Rightarrow>
          (case py_get test_case ''output'' PNone of
             Inl e \<Rightarrow> Inl e
           | Inr out \<Rightarrow>
               Inr \<lparr>code = c, test_input = inp, expected_output = out, idx = i,
                    emits_output = emits\<rparr>))"

definition docker_argv :: "string list" where
  "docker_argv =
     [''docker'', ''run'', ''--rm'', ''--memory=256m'', ''--cpus=0.5'',
      ''python:3.11-slim'', ''python'', ''-c'']"

definition docker_argv_sync :: "string list" where
  "docker_argv_sync = [''docker'', ''run'', ''--rm'', ''python:3.11-slim'', ''python'', ''-c'']"

text \<open>
  The effect of one loop iteration: the increment of \<^verbatim>\<open>passed_count\<close>, the entries
  appended to \<^verbatim>\<open>results\<close>, and the sandbox calls made.
\<close>

type_synonym step = "nat \<times> pyval list \<times> docker_call list"

definition timeout_message :: "int \<Rightarrow> string" where
  "timeout_message t = ''Timeout exceeded ('' @ str_int t @ ''s)''"

text \<open>The body of the loop of \<^verbatim>\<open>execute_code\<close>, with its three handlers.\<close>

definition run_test :: "decoder \<Rightarrow> backend \<Rightarrow> string \<Rightarrow> int \<Rightarrow> nat \<Rightarrow> pyval \<Rightarrow> step" where
  "run_test loads run c timeout i test_case =
     (case build_script True c i test_case of
        Inl e \<Rightarrow> (0, [error_entry i (str_exn e)], [])
      | Inr script \<Rightarrow>
          (let calls = [(docker_argv, script, timeout)] in
           case run docker_argv script timeout of
             TimeoutExpired \<Rightarrow> (0, [error_entry i (timeout_message timeout)], calls)
           | RunFailed msg \<Rightarrow> (0, [error_entry i msg], calls)
           | Completed returncode out err \<Rightarrow>
               if returncode = 0 then
                 (let output = strip out in
                  if output \<noteq> [] then
                    (case loads output of
                       Inl msg \<Rightarrow> (0, [error_entry i msg], calls)
                     | Inr test_result \<Rightarrow>
                         (case py_get test_result ''status'' PNone of
                            Inl e \<Rightarrow> (0, [error_entry i (str_exn e)], calls)
                          | Inr s \<Rightarrow>
                              ((if s = PStr ''passed'' then 1 else 0), [test_result], calls)))
                  else (0, [], calls))
               else
                 (0, [error_entry i (if err \<noteq> [] then err else ''Execution failed'')], calls)))"

text \<open>The body of the loop of \<^verbatim>\<open>execute_code_sync\<close>: one handler, for every exception.\<close>

definition run_test_sync :: "decoder \<Rightarrow> backend \<Rightarrow> string \<Rightarrow> nat \<Rightarrow> pyval \<Rightarrow> step" where
  "run_test_sync loads run c i test_case =
     (case build_script False c i test_case of
        Inl e \<Rightarrow> (0, [warning_entry i], [])
      | Inr script \<Rightarrow>
          (let calls = [(docker_argv_sync, script, 10)] in
           case run docker_argv_sync script 10 of
             TimeoutExpired \<Rightarrow> (0, [warning_entry i], calls)
           | RunFailed msg \<Rightarrow> (0, [warning_entry i], calls)
           | Completed returncode out err \<Rightarrow>
               if returncode = 0 then
                 (let output = strip out in
                  if output \<noteq> [] then
                    (case loads output of
                       Inl msg \<Rightarrow> (0, [warning_entry i], calls)
                     | Inr test_result \<Rightarrow>
                         (case py_get test_result ''status'' PNone of
                            Inl e \<Rightarrow> (0, [warning_entry i], calls)
                          | Inr s \<Rightarrow>
                              ((if s = PStr ''passed'' then 1 else 0), [test_result], calls)))
                  else (0, [], calls))
               else (0, [], calls)))"

text \<open>
  \<^verbatim>\<open>for idx, test_case in enumerate(test_cases)\<close>, threading \<^verbatim>\<open>passed_count\<close>,
  \<^verbatim>\<open>results\<close> and the log of sandbox calls; \<open>i\<close> is the index of the first element.
\<close>

fun judge_loop :: "(nat \<Rightarrow> pyval \<Rightarrow> step) \<Rightarrow> nat \<Rightarrow> pyval list \<Rightarrow> step \<Rightarrow> step" where
  "judge_loop body i [] st = st"
| "judge_loop body i (test_case # rest) (passed_count, results, calls) =
     (case body i test_case of
        (d, entries, cs) \<Rightarrow>
          judge_loop body (Suc i) rest (passed_count + d, results @ entries, calls @ cs))"

definition execute_code ::
  "decoder \<Rightarrow> backend \<Rightarrow> string \<Rightarrow> string \<Rightarrow> int \<Rightarrow> outcome \<times> docker_call list" where
  "execute_code loads run c test_cases_json timeout =
     (case loads test_cases_json of
        Inl msg \<Rightarrow> (Returned invalid_suite, [])
      | Inr test_cases \<Rightarrow>
          (case py_len test_cases of
             Inl e \<Rightarrow> (Raised e, [])
           | Inr total_count \<Rightarrow>
               (case judge_loop (run_test loads run c timeout) 0 (py_iter test_cases) (0, [], []) of
                  (passed_count, results, calls) \<Rightarrow>
                    (Returned
                       \<lparr>status = (if passed_count = total_count then ''passed'' else ''failed''),
                        message = None, passed = passed_count, total = total_count,
                        test_results = Some results\<rparr>,
                     calls))))"

text \<open>
  \<^verbatim>\<open>any(r.get("status") == "warning" for r in results)\<close>: stops at the first hit, and
  raises where an element has no \<^verbatim>\<open>get\<close>.
\<close>

fun any_warning :: "pyval list \<Rightarrow> exn + bool" where
  "any_warning [] = Inr False"
| "any_warning (r # rs) =
     (case py_get r ''status'' PNone of
        Inl e \<Rightarrow> Inl e
      | Inr s \<Rightarrow> if s = PStr ''warning'' then Inr True else any_warning rs)"

definition execute_code_sync ::
  "decoder \<Rightarrow> backend \<Rightarrow> string \<Rightarrow> string \<Rightarrow> outcome \<times> docker_call list" where
  "execute_code_sync loads run c test_cases_json =
     (case loads test_cases_json of
        Inl msg \<Rightarrow> (Returned invalid_suite, [])
      | Inr test_cases \<Rightarrow>
          (case py_len test_cases of
             Inl e \<Rightarrow> (Raised e, [])
           | Inr total_count \<Rightarrow>
               (case judge_loop (run_test_sync loads run c) 0 (py_iter test_cases) (0, [], []) of
                  (passed_count, results, calls) \<Rightarrow>
                    (case any_warning results of
                       Inl e \<Rightarrow> (Raised e, calls)
                     | Inr w \<Rightarrow>
                         (Returned
                            \<lparr>status = (if passed_count = total_count \<and> total_count > 0
                                       then ''passed'' else ''warning''),
                             message = Some (if \<not> w then ''Docker available''
                                             else ''Using mock execution''),
                             passed = passed_count, total = total_count,
                             test_results = Some results\<rparr>,
                          calls)))))"

section \<open>The harness that runs inside the sandbox\<close>

text \<open>
  The script pastes \<^verbatim>\<open>json.dumps(value)\<close> into Python source, after the submitted
  code: \<^verbatim>\<open>test_input = <text>\<close> and \<^verbatim>\<open>expected_output = <text>\<close>. The interpreter
  reads that text as a Python expression. Numbers, strings, lists and dictionaries of
  JSON are Python displays of the same value; \<^verbatim>\<open>null\<close>, \<^verbatim>\<open>true\<close> and \<^verbatim>\<open>false\<close>
  are plain identifiers, looked up among the module's global names.

  A submission is what its code text means to the harness: the global names it binds
  (as far as a JSON text can mention them) and the callable \<^verbatim>\<open>solution\<close>, if it
  defines one. The callable returns a value or raises an \<^verbatim>\<open>Exception\<close>; a submission
  that prints, exits or hangs is a matter of the backend's \<open>run_result\<close>, not of this
  function.
\<close>

datatype call_shape =
    Keyword "(string \<times> pyval) list"
  | Positional "pyval list"
  | Single pyval

record submission =
  globals :: "string \<Rightarrow> pyval option"
  solution :: "(call_shape \<Rightarrow> exn + pyval) option"

definition lookup_name :: "(string \<Rightarrow> pyval option) \<Rightarrow> string \<Rightarrow> exn + pyval" where
  "lookup_name g n =
     (case g n of
        Some v \<Rightarrow> Inr v
      | None \<Rightarrow> Inl (NameError (''name '' @ [CHR 0x27] @ n @ [CHR 0x27] @ '' is not defined'')))"

text \<open>The value of the expression \<^verbatim>\<open>json.dumps(v)\<close>, evaluated left to right.\<close>

fun py_literal :: "(string \<Rightarrow> pyval option) \<Rightarrow> pyval \<Rightarrow> exn + pyval"
  and py_elements :: "(string \<Rightarrow> pyval option) \<Rightarrow> pyval list \<Rightarrow> exn + pyval list"
  and py_items :: "(string \<Rightarrow> pyval option) \<Rightarrow> (string \<times> pyval) list \<Rightarrow> exn + (string \<times> pyval) list"
where
  "py_literal g PNone = lookup_name g ''null''"
| "py_literal g (PBool b) = lookup_name g (if b then ''true'' else ''false'')"
| "py_literal g (PInt n) = Inr (PInt n)"
| "py_literal g (PStr s) = Inr (PStr s)"
| "py_literal g (PList xs) =
     (case py_elements g xs of Inl e \<Rightarrow> Inl e | Inr vs \<Rightarrow> Inr (PList vs))"
| "py_literal g (PDict kvs) =
     (case py_items g kvs of Inl e \<Rightarrow> Inl e | Inr its \<Rightarrow> Inr (PDict its))"
| "py_elements g [] = Inr []"
| "py_elements g (x # xs) =
     (case py_literal g x of
        Inl e \<Rightarrow> Inl e
      | Inr v \<Rightarrow> (case py_elements g xs of Inl e \<Rightarrow> Inl e | Inr vs \<Rightarrow> Inr (v # vs)))"
| "py_items g [] = Inr []"
| "py_items g (kv # kvs) =
     (case py_literal g (snd kv) of
        Inl e \<Rightarrow> Inl e
      | Inr v \<Rightarrow> (case py_items g kvs of Inl e \<Rightarrow> Inl e | Inr its \<Rightarrow> Inr ((fst kv, v) # its)))"

text \<open>A value built from numbers, strings, lists and dictionaries only.\<close>

fun plain :: "pyval \<Rightarrow> bool" where
  "plain PNone = False"
| "plain (PBool b) = False"
| "plain (PInt n) = True"
| "plain (PStr s) = True"
| "plain (PList xs) = list_all plain xs"
| "plain (PDict kvs) = list_all (\<lambda>kv. plain (snd kv)) kvs"

text \<open>
  The input binder: \<^verbatim>\<open>solution(**test_input)\<close> for a \<^verbatim>\<open>dict\<close>,
  \<^verbatim>\<open>solution(*test_input)\<close> for a \<^verbatim>\<open>list\<close>, \<^verbatim>\<open>solution(test_input)\<close> otherwise.
\<close>

fun bind_input :: "pyval \<Rightarrow> call_shape" where
  "bind_input (PDict kvs) = Keyword kvs"
| "bind_input (PList xs) = Positional xs"
| "bind_input v = Single v"

definition call_solution :: "submission \<Rightarrow> pyval \<Rightarrow> exn + pyval" where
  "call_solution sub inp =
     (case solution sub of
        None \<Rightarrow> Inl (NameError (''name '' @ [CHR 0x27] @ ''solution'' @ [CHR 0x27] @ '' is not defined''))
      | Some f \<Rightarrow> f (bind_input inp))"

text \<open>Python's \<^verbatim>\<open>==\<close> on these values: structural, with \<^verbatim>\<open>bool\<close> a kind of \<^verbatim>\<open>int\<close>.\<close>

fun py_eq :: "pyval \<Rightarrow> pyval \<Rightarrow> bool" where
  "py_eq PNone b = (b = PNone)"
| "py_eq (PBool x) b =
     (case b of PBool y \<Rightarrow> x = y | PInt n \<Rightarrow> n = (if x then 1 else 0) | _ \<Rightarrow> False)"
| "py_eq (PInt m) b =
     (case b of PInt n \<Rightarrow> m = n | PBool y \<Rightarrow> m = (if y then 1 else 0) | _ \<Rightarrow> False)"
| "py_eq (PStr s) b = (b = PStr s)"
| "py_eq (PList xs) b = (case b of PList ys \<Rightarrow> list_all2 py_eq xs ys | _ \<Rightarrow> False)"
| "py_eq (PDict kvs) b =
     (case b of
        PDict kvs' \<Rightarrow>
          length kvs = length kvs' \<and>
          list_all (\<lambda>kv. case map_of kvs' (fst kv) of
                            Some v' \<Rightarrow> py_eq (snd kv) v'
                          | None \<Rightarrow> False) kvs
      | _ \<Rightarrow> False)"

definition passed_record :: "test_script \<Rightarrow> pyval \<Rightarrow> pyval" where
  "passed_record s result =
     PDict ([(''status'', PStr ''passed''), (''test_case'', PInt (int (idx s)))] @
            (if emits_output s then [(''output'', result)] else []))"

definition failed_record :: "test_script \<Rightarrow> pyval \<Rightarrow> pyval \<Rightarrow> pyval" where
  "failed_record s expected got =
     PDict [(''status'', PStr ''failed''), (''test_case'', PInt (int (idx s))),
            (''expected'', expected), (''got'', got)]"

text \<open>
  A run of the script after the submitted code has been executed: either it prints one
  record (and exits with status 0), or an exception leaves the module uncaught (a
  traceback on stderr, exit status 1, nothing printed). The two assignments stand before
  the \<^verbatim>\<open>try\<close>, so a failure there is uncaught.
\<close>

datatype harness_result = Printed pyval | Uncaught exn

definition harness :: "submission \<Rightarrow> test_script \<Rightarrow> harness_result" where
  "harness sub s =
     (case py_literal (globals sub) (test_input s) of
        Inl e \<Rightarrow> Uncaught e
      | Inr inp \<Rightarrow>
          (case py_literal (globals sub) (expected_output s) of
             Inl e \<Rightarrow> Uncaught e
           | Inr expected \<Rightarrow>
               (case call_solution sub inp of
                  Inl e \<Rightarrow> Printed (error_entry (idx s) (str_exn e))
                | Inr result \<Rightarrow>
                    if py_eq result expected then Printed (passed_record s result)
                    else Printed (failed_record s expected result))))"

text \<open>
  A backend result that is what a working sandbox gives for the harness: the printed
  record comes back through \<^verbatim>\<open>json.loads\<close>, an uncaught exception is a nonzero exit
  status with the traceback on stderr.
\<close>

definition runs_harness :: "decoder \<Rightarrow> submission \<Rightarrow> test_script \<Rightarrow> run_result \<Rightarrow> bool" where
  "runs_harness loads sub s r =
     (case r of
        Completed returncode out err \<Rightarrow>
          (case harness sub s of
             Printed rec \<Rightarrow> returncode = 0 \<and> strip out \<noteq> [] \<and> loads (strip out) = Inr rec
           | Uncaught e \<Rightarrow> returncode = 1 \<and> out = [] \<and> err \<noteq> [])
      | TimeoutExpired \<Rightarrow> False
      | RunFailed msg \<Rightarrow> False)"

section \<open>Reading a loop iteration and a backend reply\<close>

definition step_passed :: "step \<Rightarrow> nat" where
  "step_passed st = fst st"

definition step_entries :: "step \<Rightarrow> pyval list" where
  "step_entries st = fst (snd st)"

definition step_calls :: "step \<Rightarrow> docker_call list" where
  "step_calls st = snd (snd st)"

text \<open>The \<^verbatim>\<open>test_results\<close> of a returned verdict.\<close>

definition returned_results :: "outcome \<Rightarrow> pyval list option" where
  "returned_results out = (case out of Returned v \<Rightarrow> test_results v | Raised e \<Rightarrow> None)"

text \<open>\<^verbatim>\<open>subprocess.run\<close> raised instead of returning a completed process.\<close>

fun raises :: "run_result \<Rightarrow> bool" where
  "raises (Completed returncode out err) = False"
| "raises TimeoutExpired = True"
| "raises (RunFailed msg) = True"


section \<open>Concrete suites, submissions and backends\<close>

definition three_cases :: string where
  "three_cases =
     ''[{\"input\": [1], \"output\": 1}, {\"input\": [2], \"output\": 2}, {\"input\": [3], \"output\": 3}]''"

definition three_suite :: "pyval list" where
  "three_suite =
     [PDict [(''input'', PList [PInt 1]), (''output'', PInt 1)],
      PDict [(''input'', PList [PInt 2]), (''output'', PInt 2)],
      PDict [(''input'', PList [PInt 3]), (''output'', PInt 3)]]"

text \<open>
  The graph of \<^verbatim>\<open>json.loads\<close> on the texts used below; every text outside the table
  stands for one that does not decode (as \<^verbatim>\<open>not json\<close>, whose message is the one given).
\<close>

definition json_texts :: "(string \<times> pyval) list" where
  "json_texts =
     [(''[]'', PList []),
      (''{\"a\": 1}'', PDict [(''a'', PInt 1)]),
      (''[{}]'', PList [PDict []]),
      (''[{\"input\": [1], \"output\": 99}]'',
         PList [PDict [(''input'', PList [PInt 1]), (''output'', PInt 99)]]),
      (''[{\"input\": true, \"output\": 1}]'',
         PList [PDict [(''input'', PBool True), (''output'', PInt 1)]]),
      (''{\"status\": \"passed\", \"test_case\": 0, \"output\": 1}'',
         PDict [(''status'', PStr ''passed''), (''test_case'', PInt 0), (''output'', PInt 1)]),
      (''{\"status\": \"passed\", \"test_case\": 2}'',
         PDict [(''status'', PStr ''passed''), (''test_case'', PInt 2)]),
      (''{\"status\": \"passed\", \"test_case\": 7}'',
         PDict [(''status'', PStr ''passed''), (''test_case'', PInt 7)]),
      (''{\"status\": \"failed\", \"test_case\": 0, \"expected\": 99, \"got\": 1}'',
         PDict [(''status'', PStr ''failed''), (''test_case'', PInt 0),
                (''expected'', PInt 99), (''got'', PInt 1)]),
      (three_cases, PList three_suite)]"

definition json_loads :: decoder where
  "json_loads s =
     (case map_of json_texts s of
        Some v \<Rightarrow> Inr v
      | None \<Rightarrow> Inl ''Expecting value: line 1 column 1 (char 0)'')"

text \<open>A backend given by its reply to the sandbox call of each test case, by index.\<close>

definition replies :: "run_result list \<Rightarrow> backend" where
  "replies rs argv s t =
     (if idx s < length rs then rs ! idx s
      else RunFailed (''[Errno 2] No such file or directory: 'docker'' @ [CHR 0x27]))"

text \<open>No \<^verbatim>\<open>docker\<close> executable: every call raises \<^verbatim>\<open>FileNotFoundError\<close>.\<close>

definition no_docker :: backend where
  "no_docker = replies []"

text \<open>
  A backend whose first two sandbox creations fail and whose third runs the harness of
  test case 2 to a passed record.
\<close>

definition flaky_docker :: backend where
  "flaky_docker =
     replies [RunFailed ''[Errno 11] Resource temporarily unavailable'',
              RunFailed ''[Errno 11] Resource temporarily unavailable'',
              Completed 0 (''{\"status\": \"passed\", \"test_case\": 2}'' @ [CHR 0x0A]) '''']"

text \<open>The test-case indices of the scripts that were handed to the sandbox, in call order.\<close>

definition call_indices :: "docker_call list \<Rightarrow> nat list" where
  "call_indices cs = map (\<lambda>call. idx (fst (snd call))) cs"


text \<open>
  The meaning of \<^verbatim>\<open>def solution(*args, **kwargs): return <v>\<close>: it binds none of the
  names \<^verbatim>\<open>null\<close>, \<^verbatim>\<open>true\<close>, \<^verbatim>\<open>false\<close>, and its callable accepts every call shape.
\<close>

definition constant_solution :: "pyval \<Rightarrow> submission" where
  "constant_solution v = \<lparr>globals = (\<lambda>n. None), solution = Some (\<lambda>shape. Inr v)\<rparr>"

section \<open>The loop, iteration by iteration\<close>

lemma judge_loop_unfold:
  "judge_loop body i tcs (p, rs, cs) =
     (p + sum_list (map (\<lambda>(j, tc). step_passed (body j tc)) (enumerate i tcs)),
      rs @ concat (map (\<lambda>(j, tc). step_entries (body j tc)) (enumerate i tcs)),
      cs @ concat (map (\<lambda>(j, tc). step_calls (body j tc)) (enumerate i tcs)))"
  by (induction tcs arbitrary: i p rs cs)
     (auto simp: step_passed_def step_entries_def step_calls_def split: prod.splits)

lemma map_enumerate_upt:
  "map (\<lambda>(j, tc). f j tc) (enumerate i tcs) = map (\<lambda>k. f (i + k) (tcs ! k)) [0..<length tcs]"
  by (rule nth_equalityI) (simp_all add: nth_enumerate_eq)

lemma judge_loop_upt:
  "judge_loop body 0 tcs (0, [], []) =
     (sum_list (map (\<lambda>k. step_passed (body k (tcs ! k))) [0..<length tcs]),
      concat (map (\<lambda>k. step_entries (body k (tcs ! k))) [0..<length tcs]),
      concat (map (\<lambda>k. step_calls (body k (tcs ! k))) [0..<length tcs]))"
  by (simp add: judge_loop_unfold map_enumerate_upt)

section \<open>The overall status\<close>

lemma execute_code_sync_passed_iff:
  assumes "fst (execute_code_sync loads run c js) = Returned v"
  shows "status v = ''passed'' \<longleftrightarrow> 0 < total v \<and> passed v = total v"
  using assms
  by (auto simp: execute_code_sync_def invalid_suite_def split: sum.splits prod.splits if_splits)

lemma execute_code_passed_iff:
  assumes "fst (execute_code loads run c js t) = Returned v" and "status v \<noteq> ''error''"
  shows "status v = ''passed'' \<longleftrightarrow> passed v = total v"
  using assms
  by (auto simp: execute_code_def invalid_suite_def split: sum.splits prod.splits if_splits)

lemma json_loads_empty: "json_loads ''[]'' = Inr (PList [])"
  by (simp add: json_loads_def json_texts_def)

text \<open>
  C1 (the status is passed exactly when there is at least one test case and all of them
  passed). \<^verbatim>\<open>execute_code_sync\<close> tests \<^verbatim>\<open>total_count > 0\<close>
  (\<open>execute_code_sync_passed_iff\<close>); \<^verbatim>\<open>execute_code\<close> compares the two counts only,
  so on the empty suite \<^verbatim>\<open>[]\<close> it returns the status passed with no test case at all,
  whatever the code and the backend.
\<close>

theorem execute_code_empty_suite_passed:
  "execute_code json_loads run c ''[]'' t =
     (Returned \<lparr>status = ''passed'', message = None, passed = 0, total = 0,
                test_results = Some []\<rparr>, [])"
  by (simp add: execute_code_def json_loads_empty)

section \<open>One entry per test case\<close>

text \<open>
  C2 (the list of results has one entry per test case once the suite has parsed). Both
  loops append nothing when the sandbox ends with status 0 and an empty stdout, and the
  loop of \<^verbatim>\<open>execute_code_sync\<close> has no branch for a nonzero exit status either. With
  the one-case suite \<^verbatim>\<open>[{"input": [1], "output": 99}]\<close>: a submission whose
  \<^verbatim>\<open>solution\<close> calls \<^verbatim>\<open>sys.exit(0)\<close> leaves \<^verbatim>\<open>execute_code\<close> with total 1 and no
  result; a submission that does not compile (exit status 1) leaves
  \<^verbatim>\<open>execute_code_sync\<close> with total 1 and no result.
\<close>

theorem silent_run_drops_result:
  "fst (execute_code json_loads (replies [Completed 0 '''' ''''])
          c ''[{\"input\": [1], \"output\": 99}]'' t)
     = Returned \<lparr>status = ''failed'', message = None, passed = 0, total = 1,
                 test_results = Some []\<rparr>
   \<and> fst (execute_code_sync json_loads (replies [Completed 1 '''' err])
          c ''[{\"input\": [1], \"output\": 99}]'')
     = Returned \<lparr>status = ''warning'', message = Some ''Docker available'', passed = 0,
                 total = 1, test_results = Some []\<rparr>"
  by (simp add: execute_code_def execute_code_sync_def json_loads_def json_texts_def
        replies_def run_test_def run_test_sync_def build_script_def strip_def)

section \<open>A suite that is not a list of test cases\<close>






section \<open>A backend that fails\<close>

lemma concat_map_singleton: "concat (map (\<lambda>k. [f k]) xs) = map f xs"
  by (induction xs) simp_all

lemma any_warning_dicts:
  assumes "\<And>r. r \<in> set rs \<Longrightarrow> \<exists>kvs. r = PDict kvs"
  shows "\<exists>w. any_warning rs = Inr w"
  using assms
proof (induction rs)
  case Nil
  then show ?case by auto
next
  case (Cons r rs)
  obtain kvs where "r = PDict kvs"
    using Cons.prems by auto
  moreover obtain w where "any_warning rs = Inr w"
    using Cons by auto
  ultimately show ?case by auto
qed

lemma run_test_sync_dicts:
  "r \<in> set (step_entries (run_test_sync loads run c i tc)) \<Longrightarrow> \<exists>kvs. r = PDict kvs"
  by (cases r)
     (auto simp: run_test_sync_def step_entries_def warning_entry_def Let_def
           split: sum.splits run_result.splits if_splits)

lemma execute_code_sync_list:
  assumes "loads js = Inr (PList tcs)"
  shows "\<exists>w. execute_code_sync loads run c js =
     (Returned
        \<lparr>status = (if sum_list (map (\<lambda>k. step_passed (run_test_sync loads run c k (tcs ! k))) [0..<length tcs]) = length tcs \<and> length tcs > 0
                   then ''passed'' else ''warning''),
         message = Some (if \<not> w then ''Docker available'' else ''Using mock execution''),
         passed = sum_list (map (\<lambda>k. step_passed (run_test_sync loads run c k (tcs ! k))) [0..<length tcs]),
         total = length tcs,
         test_results = Some (concat (map (\<lambda>k. step_entries (run_test_sync loads run c k (tcs ! k))) [0..<length tcs]))\<rparr>,
      concat (map (\<lambda>k. step_calls (run_test_sync loads run c k (tcs ! k))) [0..<length tcs]))
     \<and> any_warning (concat (map (\<lambda>k. step_entries (run_test_sync loads run c k (tcs ! k))) [0..<length tcs])) = Inr w"
proof -
  let ?rs = "concat (map (\<lambda>k. step_entries (run_test_sync loads run c k (tcs ! k))) [0..<length tcs])"
  have "\<And>r. r \<in> set ?rs \<Longrightarrow> \<exists>kvs. r = PDict kvs"
    by (auto dest: run_test_sync_dicts)
  then obtain w where w: "any_warning ?rs = Inr w"
    using any_warning_dicts by blast
  show ?thesis
    using assms w by (simp add: execute_code_sync_def judge_loop_upt)
qed


lemma run_test_sync_raises:
  assumes "\<And>a s u. raises (run a s u)"
  shows "step_passed (run_test_sync loads run c i tc) = 0"
    and "step_entries (run_test_sync loads run c i tc) = [warning_entry i]"
proof -
  have "step_passed (run_test_sync loads run c i tc) = 0 \<and>
     step_entries (run_test_sync loads run c i tc) = [warning_entry i]"
  proof (cases "build_script False c i tc")
    case (Inl e)
    then show ?thesis
      by (simp add: run_test_sync_def step_passed_def step_entries_def)
  next
    case (Inr s)
    show ?thesis
      using assms [of docker_argv_sync s 10] Inr
      by (cases "run docker_argv_sync s 10")
         (simp_all add: run_test_sync_def step_passed_def step_entries_def)
  qed
  then show "step_passed (run_test_sync loads run c i tc) = 0"
    and "step_entries (run_test_sync loads run c i tc) = [warning_entry i]"
    by simp_all
qed

lemma any_warning_entries:
  "any_warning (map warning_entry xs) = Inr (xs \<noteq> [])"
  by (cases xs) (simp_all add: warning_entry_def)

text \<open>
  C8, as the code has it: when every call of \<^verbatim>\<open>subprocess.run\<close> raises (no
  \<^verbatim>\<open>docker\<close> executable, or a sandbox that never answers in time),
  \<^verbatim>\<open>execute_code_sync\<close> returns a verdict: the status is warning, nothing has passed,
  every test case has its warning entry, and the message is \<^verbatim>\<open>Using mock execution\<close>
  for a suite with at least one test case (for the empty suite it is
  \<^verbatim>\<open>Docker available\<close>).
\<close>

theorem unavailable_backend_warning:
  assumes "loads js = Inr (PList tcs)"
    and "\<forall>a s u. raises (run a s u)"
  shows "fst (execute_code_sync loads run c js) =
     Returned \<lparr>status = ''warning'',
               message = Some (if tcs = [] then ''Docker available'' else ''Using mock execution''),
               passed = 0, total = length tcs,
               test_results = Some (map warning_entry [0..<length tcs])\<rparr>"
proof -
  have r: "\<And>a s u. raises (run a s u)"
    using assms(2) by simp
  obtain w where w: "execute_code_sync loads run c js =
     (Returned
        \<lparr>status = (if sum_list (map (\<lambda>k. step_passed (run_test_sync loads run c k (tcs ! k))) [0..<length tcs]) = length tcs \<and> length tcs > 0
                   then ''passed'' else ''warning''),
         message = Some (if \<not> w then ''Docker available'' else ''Using mock execution''),
         passed = sum_list (map (\<lambda>k. step_passed (run_test_sync loads run c k (tcs ! k))) [0..<length tcs]),
         total = length tcs,
         test_results = Some (concat (map (\<lambda>k. step_entries (run_test_sync loads run c k (tcs ! k))) [0..<length tcs]))\<rparr>,
      concat (map (\<lambda>k. step_calls (run_test_sync loads run c k (tcs ! k))) [0..<length tcs]))"
    and aw: "any_warning (concat (map (\<lambda>k. step_entries (run_test_sync loads run c k (tcs ! k))) [0..<length tcs])) = Inr w"
    using execute_code_sync_list [of loads js tcs run c] assms(1) by blast
  have "w = (tcs \<noteq> [])"
    using aw by (simp add: run_test_sync_raises [OF r] concat_map_singleton any_warning_entries)
  then show ?thesis
    using w by (simp add: run_test_sync_raises [OF r] concat_map_singleton)
qed


text \<open>
  C8 as stated fails at the empty suite \<^verbatim>\<open>[]\<close> with no \<^verbatim>\<open>docker\<close> executable: the
  status is warning, but the message of the verdict reads \<^verbatim>\<open>Docker available\<close>.
\<close>

theorem empty_suite_docker_available_counterexample:
  "fst (execute_code_sync json_loads no_docker ''def solution(x): return x'' ''[]'')
     = Returned \<lparr>status = ''warning'', message = Some ''Docker available'', passed = 0,
                 total = 0, test_results = Some []\<rparr>"
  by (simp add: execute_code_sync_def json_loads_def json_texts_def)

lemma no_docker_raises: "raises (no_docker a s u)"
  by (simp add: no_docker_def replies_def)

text \<open>
  C8 at the three-case suite with no \<^verbatim>\<open>docker\<close> executable: three warning entries,
  the status warning.
\<close>

theorem unavailable_backend_warning_witness:
  "json_loads three_cases = Inr (PList three_suite)
   \<and> fst (execute_code_sync json_loads no_docker ''def solution(x): return x'' three_cases)
     = Returned \<lparr>status = ''warning'', message = Some ''Using mock execution'', passed = 0,
                 total = 3,
                 test_results = Some [warning_entry 0, warning_entry 1, warning_entry 2]\<rparr>"
proof -
  have suite: "json_loads three_cases = Inr (PList three_suite)"
    by (simp add: json_loads_def json_texts_def three_cases_def)
  have down: "\<forall>a s u. raises (no_docker a s u)"
    by (simp add: no_docker_raises)
  have three: "length three_suite = 3" "three_suite \<noteq> []" "[0..<3] = [0, 1, 2]"
    by (simp_all add: three_suite_def upt_rec)
  show ?thesis
    using suite down
      unavailable_backend_warning [where loads = json_loads and run = no_docker
        and c = "''def solution(x): return x''" and js = three_cases and tcs = three_suite]
    by (simp add: three)
qed

lemma step_calls_sync:
  "step_calls (run_test_sync loads run c i tc) =
     (case build_script False c i tc of Inl e \<Rightarrow> [] | Inr s \<Rightarrow> [(docker_argv_sync, s, 10)])"
  by (simp add: run_test_sync_def step_calls_def Let_def split: sum.splits run_result.splits)

lemma step_calls_full:
  "step_calls (run_test loads run c t i tc) =
     (case build_script True c i tc of Inl e \<Rightarrow> [] | Inr s \<Rightarrow> [(docker_argv, s, t)])"
  by (simp add: run_test_def step_calls_def Let_def split: sum.splits run_result.splits)

text \<open>
  C9, as the code has it: nothing is retried and nothing is given up. Whatever the
  backend answers, \<^verbatim>\<open>execute_code_sync\<close> hands each test case that is a dictionary to
  the sandbox exactly once, in suite order; the results are the entries of the test cases
  one after the other; and a call that raises is stored at once as the warning entry of
  its test case.
\<close>

theorem one_call_per_test_case:
  assumes "loads js = Inr (PList tcs)"
  shows "snd (execute_code_sync loads run c js) =
           concat (map (\<lambda>i. case build_script False c i (tcs ! i) of
                                Inl e \<Rightarrow> []
                              | Inr s \<Rightarrow> [(docker_argv_sync, s, 10)]) [0..<length tcs])
       \<and> returned_results (fst (execute_code_sync loads run c js)) =
           Some (concat (map (\<lambda>i. step_entries (run_test_sync loads run c i (tcs ! i)))
                          [0..<length tcs]))
       \<and> (\<forall>i s. build_script False c i (tcs ! i) = Inr s \<and> raises (run docker_argv_sync s 10) \<longrightarrow>
             run_test_sync loads run c i (tcs ! i) =
               (0, [warning_entry i], [(docker_argv_sync, s, 10)]))"
proof (intro conjI allI impI)
  show "snd (execute_code_sync loads run c js) =
           concat (map (\<lambda>i. case build_script False c i (tcs ! i) of
                                Inl e \<Rightarrow> []
                              | Inr s \<Rightarrow> [(docker_argv_sync, s, 10)]) [0..<length tcs])"
    using execute_code_sync_list [of loads js tcs run c] assms
    by (auto simp: step_calls_sync)
next
  show "returned_results (fst (execute_code_sync loads run c js)) =
           Some (concat (map (\<lambda>i. step_entries (run_test_sync loads run c i (tcs ! i)))
                          [0..<length tcs]))"
    using execute_code_sync_list [of loads js tcs run c] assms
    by (auto simp: returned_results_def)
next
  fix i s
  assume a: "build_script False c i (tcs ! i) = Inr s \<and> raises (run docker_argv_sync s 10)"
  then show "run_test_sync loads run c i (tcs ! i) =
               (0, [warning_entry i], [(docker_argv_sync, s, 10)])"
    by (cases "run docker_argv_sync s 10") (simp_all add: run_test_sync_def)
qed


text \<open>
  C9 at the three-case suite with a backend whose first two creations fail: each test
  case is handed to the sandbox once, the third one after two failures in a row.
\<close>

theorem one_call_per_test_case_witness:
  "json_loads three_cases = Inr (PList three_suite)
   \<and> call_indices (snd (execute_code_sync json_loads flaky_docker ''def solution(x): return x''
          three_cases)) = [0, 1, 2]
   \<and> returned_results (fst (execute_code_sync json_loads flaky_docker
          ''def solution(x): return x'' three_cases))
     = Some [warning_entry 0, warning_entry 1,
             PDict [(''status'', PStr ''passed''), (''test_case'', PInt 2)]]"
proof -
  have suite: "json_loads three_cases = Inr (PList three_suite)"
    by (simp add: json_loads_def json_texts_def three_cases_def)
  have three: "[0..<length three_suite] = [0, 1, 2]"
    by (simp add: three_suite_def upt_rec)
  show ?thesis
    using suite
      one_call_per_test_case [where loads = json_loads and run = flaky_docker
        and c = "''def solution(x): return x''" and js = three_cases and tcs = three_suite]
    by (simp add: three three_suite_def call_indices_def build_script_def run_test_sync_def
          step_entries_def flaky_docker_def replies_def strip_def is_space_def
          json_loads_def json_texts_def warning_entry_def)
qed

text \<open>
  C9 as stated fails on the same run: after two consecutive failed creations the third
  test case is still run in the sandbox and graded (passed 1 of 3), the failures are
  stored as warning entries, and no call is repeated.
\<close>

theorem flaky_backend_counterexample:
  "fst (execute_code_sync json_loads flaky_docker ''def solution(x): return x'' three_cases)
     = Returned \<lparr>status = ''warning'', message = Some ''Using mock execution'', passed = 1,
                 total = 3,
                 test_results = Some [warning_entry 0, warning_entry 1,
                    PDict [(''status'', PStr ''passed''), (''test_case'', PInt 2)]]\<rparr>
   \<and> call_indices (snd (execute_code_sync json_loads flaky_docker ''def solution(x): return x''
          three_cases)) = [0, 1, 2]"
  by (simp add: execute_code_sync_def json_loads_def json_texts_def three_cases_def
        three_suite_def call_indices_def build_script_def run_test_sync_def
        flaky_docker_def replies_def strip_def is_space_def warning_entry_def)

section \<open>The order of the results\<close>











section \<open>A test case that runs into the timeout\<close>





section \<open>The harness: reconstructed values and the input binder\<close>

lemma plain_literal:
  "plain v \<Longrightarrow> py_literal g v = Inr v"
  "list_all plain vs \<Longrightarrow> py_elements g vs = Inr vs"
  "list_all (\<lambda>kv. plain (snd kv)) kvs \<Longrightarrow> py_items g kvs = Inr kvs"
  by (induction g v and g vs and g kvs rule: py_literal_py_elements_py_items.induct) simp_all

lemma harness_binds_by_type:
  assumes "py_literal (globals sub) (test_input s) = Inr inp"
    and "py_literal (globals sub) (expected_output s) = Inr expected"
    and "solution sub = Some f"
  shows "harness sub s =
     (case f (case inp of PDict kvs \<Rightarrow> Keyword kvs | PList xs \<Rightarrow> Positional xs | _ \<Rightarrow> Single inp) of
        Inl e \<Rightarrow> Printed (error_entry (idx s) (str_exn e))
      | Inr result \<Rightarrow>
          if py_eq result expected then Printed (passed_record s result)
          else Printed (failed_record s expected result))"
  using assms by (cases inp) (simp_all add: harness_def call_solution_def)

lemma harness_plain:
  assumes "plain (test_input s)" and "plain (expected_output s)" and "solution sub = Some f"
  shows "harness sub s =
     (case f (bind_input (test_input s)) of
        Inl e \<Rightarrow> Printed (error_entry (idx s) (str_exn e))
      | Inr result \<Rightarrow>
          if py_eq result (expected_output s) then Printed (passed_record s result)
          else Printed (failed_record s (expected_output s) result))"
  using assms by (simp add: harness_def call_solution_def plain_literal)

lemma missing_input_no_arguments:
  assumes "map_of kvs ''input'' = None" and "build_script emits c i (PDict kvs) = Inr s"
  shows "test_input s = PDict [] \<and> bind_input (test_input s) = Keyword []"
  using assms by (auto simp: build_script_def)

lemma missing_output_is_null:
  assumes "map_of kvs ''output'' = None"
  shows "build_script emits c i (PDict kvs) = build_script emits c i (PDict (kvs @ [(''output'', PNone)]))"
  using assms by (simp add: build_script_def map_add_def split: option.splits)

lemma number_input_is_bound:
  "harness (constant_solution (PInt 1))
     \<lparr>code = c, test_input = PInt 5, expected_output = PInt 1, idx = 0, emits_output = True\<rparr>
   = Printed (PDict [(''status'', PStr ''passed''), (''test_case'', PInt 0), (''output'', PInt 1)])"
  by (simp add: harness_def constant_solution_def call_solution_def passed_record_def)

text \<open>
  C5 (the binder picks the call shape from the type of the test input; a scalar is passed
  as the only argument). The binder does dispatch on the type
  (\<open>harness_binds_by_type\<close>), and the input is reconstructed exactly when it is built
  from numbers, strings, lists and dictionaries (\<open>harness_plain\<close>). The scalars
  \<^verbatim>\<open>true\<close>, \<^verbatim>\<open>false\<close> and \<^verbatim>\<open>null\<close> never reach it: with the suite
  \<^verbatim>\<open>[{"input": true, "output": 1}]\<close> and the code
  \<^verbatim>\<open>def solution(*args, **kwargs): return 1\<close>, the line \<^verbatim>\<open>test_input = true\<close> raises
  \<^verbatim>\<open>NameError\<close> before the \<^verbatim>\<open>try\<close>, \<^verbatim>\<open>solution\<close> is not called, and
  \<^verbatim>\<open>execute_code\<close> stores the traceback (the text on stderr, which starts with
  \<^verbatim>\<open>Traceback\<close>) as an error entry.
\<close>

theorem true_input_never_bound:
  "build_script True ''def solution(*args, **kwargs): return 1'' 0
     (PDict [(''input'', PBool True), (''output'', PInt 1)])
     = Inr \<lparr>code = ''def solution(*args, **kwargs): return 1'', test_input = PBool True,
            expected_output = PInt 1, idx = 0, emits_output = True\<rparr>
   \<and> harness (constant_solution (PInt 1))
       \<lparr>code = ''def solution(*args, **kwargs): return 1'', test_input = PBool True,
        expected_output = PInt 1, idx = 0, emits_output = True\<rparr>
     = Uncaught (NameError ''name 'true' is not defined'')
   \<and> runs_harness json_loads (constant_solution (PInt 1))
       \<lparr>code = ''def solution(*args, **kwargs): return 1'', test_input = PBool True,
        expected_output = PInt 1, idx = 0, emits_output = True\<rparr>
       (Completed 1 '''' (CHR ''T'' # traceback))
   \<and> fst (execute_code json_loads (replies [Completed 1 '''' (CHR ''T'' # traceback)])
          ''def solution(*args, **kwargs): return 1'' ''[{\"input\": true, \"output\": 1}]'' 10)
     = Returned \<lparr>status = ''failed'', message = None, passed = 0, total = 1,
          test_results = Some [error_entry 0 (CHR ''T'' # traceback)]\<rparr>"
  by (simp add: build_script_def harness_def constant_solution_def lookup_name_def
        runs_harness_def execute_code_def run_test_def replies_def json_loads_def
        json_texts_def)

text \<open>
  C6 (a missing \<^verbatim>\<open>input\<close> is the empty mapping, a missing \<^verbatim>\<open>output\<close> is null and a
  legal comparison target). The defaults are as claimed (\<open>missing_input_no_arguments\<close>,
  \<open>missing_output_is_null\<close>), but the expected output \<^verbatim>\<open>null\<close> is pasted into the
  script as the undefined name \<^verbatim>\<open>null\<close>: with the suite \<^verbatim>\<open>[{}]\<close> and the code
  \<^verbatim>\<open>def solution(*args, **kwargs): return None\<close>, the line
  \<^verbatim>\<open>expected_output = null\<close> raises \<^verbatim>\<open>NameError\<close> before the \<^verbatim>\<open>try\<close>; nothing is
  compared, and \<^verbatim>\<open>execute_code\<close> stores the traceback (the text on stderr, which
  starts with \<^verbatim>\<open>Traceback\<close>) as an error entry where the result \<^verbatim>\<open>None\<close> should
  have passed.
\<close>

theorem null_output_is_undefined_name:
  "build_script True ''def solution(*args, **kwargs): return None'' 0 (PDict [])
     = Inr \<lparr>code = ''def solution(*args, **kwargs): return None'', test_input = PDict [],
            expected_output = PNone, idx = 0, emits_output = True\<rparr>
   \<and> harness (constant_solution PNone)
       \<lparr>code = ''def solution(*args, **kwargs): return None'', test_input = PDict [],
        expected_output = PNone, idx = 0, emits_output = True\<rparr>
     = Uncaught (NameError ''name 'null' is not defined'')
   \<and> runs_harness json_loads (constant_solution PNone)
       \<lparr>code = ''def solution(*args, **kwargs): return None'', test_input = PDict [],
        expected_output = PNone, idx = 0, emits_output = True\<rparr>
       (Completed 1 '''' (CHR ''T'' # traceback))
   \<and> fst (execute_code json_loads (replies [Completed 1 '''' (CHR ''T'' # traceback)])
          ''def solution(*args, **kwargs): return None'' ''[{}]'' 10)
     = Returned \<lparr>status = ''failed'', message = None, passed = 0, total = 1,
          test_results = Some [error_entry 0 (CHR ''T'' # traceback)]\<rparr>"
  by (simp add: build_script_def harness_def constant_solution_def lookup_name_def
        runs_harness_def execute_code_def run_test_def replies_def json_loads_def
        json_texts_def)

section \<open>The status of the path the API uses\<close>

lemma execute_code_sync_returns:
  assumes "loads js = Inr v" and "py_len v = Inr n"
  shows "\<exists>vd. fst (execute_code_sync loads run c js) = Returned vd"
proof -
  obtain p rs cs where loop:
    "judge_loop (run_test_sync loads run c) 0 (py_iter v) (0, [], []) = (p, rs, cs)"
    by (metis prod_cases3)
  have "rs = concat (map (\<lambda>k. step_entries (run_test_sync loads run c k (py_iter v ! k)))
                      [0..<length (py_iter v)])"
    using loop by (simp add: judge_loop_upt)
  then have "\<And>r. r \<in> set rs \<Longrightarrow> \<exists>kvs. r = PDict kvs"
    by (auto dest: run_test_sync_dicts)
  then obtain w where "any_warning rs = Inr w"
    using any_warning_dicts by blast
  then show ?thesis
    using assms loop by (simp add: execute_code_sync_def)
qed



end
